theory Spec2Isabelle
  imports
    Complex_Main
    "HOL-Library.Char_ord"
    "HOL-Library.List_Lexorder"
    "HOL-Library.Multiset"
    "HOL-Library.Word"
begin

unbundle bit_operations_syntax

section \<open>Record model (internal/github)\<close>

text \<open>
  A \<^verbatim>\<open>time.Time\<close> is modelled by the instant it denotes, in nanoseconds since the
  Unix epoch: \<^verbatim>\<open>Before\<close> and \<^verbatim>\<open>After\<close> compare instants only. Go's \<^verbatim>\<open>int\<close> is
  modelled by \<open>int\<close>: the program compares identifiers, status codes and the head
  limit, and never computes with them. Strings are byte lists, ordered byte-wise
  and lexicographically as \<^verbatim>\<open>strings.Compare\<close> orders them.
\<close>

type_synonym Time = int

definition Before :: "Time \<Rightarrow> Time \<Rightarrow> bool" where
  "Before t u = (t < u)"

definition After :: "Time \<Rightarrow> Time \<Rightarrow> bool" where
  "After t u = (u < t)"

text \<open>
  Errors are values. Each constructor stands for one \<^verbatim>\<open>fmt.Errorf\<close> of the program
  (the wrapped error is its argument); \<open>External\<close> is an error that a collaborator
  returns (transport, JSON decoding, date parsing).
\<close>

datatype error =
    OrgOrRepoRequired
  | OrgAndRepoExclusive
  | RepoFormat
  | SinceAfterUntil
  | HeadNegative
  | SortFormat
  | SortFieldUnknown
  | SortOrderUnknown
  | InvalidSince error
  | InvalidUntil error
  | ValidationError error
  | ClientCreation error
  | ListOrgReposFailed error
  | ListOrganizationFailed error
  | ListRepoWebhooksFailed error
  | ListWebhooksFailed error
  | ListDeliveriesFailed int error
  | GetDeliveryDetailFailed error
  | DeliveryDetailFailed int error
  | External string

record HookConfig =
  URL :: string

record Hook =
  ID :: int
  URL :: string
  Active :: bool
  Config :: HookConfig

text \<open>\<^verbatim>\<open>Duration\<close> is a \<^verbatim>\<open>float64\<close> that the program only carries along.\<close>

record Delivery =
  ID :: int
  GUID :: string
  DeliveredAt :: Time
  Redelivery :: bool
  Duration :: real
  Status :: string
  StatusCode :: int
  Event :: string
  Action :: string
  URL :: string
  Repository :: string
  HookID :: int

text \<open>
  \<^verbatim>\<open>DeliveryDetail\<close> embeds \<^verbatim>\<open>Delivery\<close>; the request and response bodies are kept
  as raw text.
\<close>

record DeliveryDetail = Delivery +
  Request_Headers :: "(string \<times> string) list"
  Request_Payload :: string
  Response_Headers :: "(string \<times> string) list"
  Response_Payload :: string

section \<open>Predicate filters (internal/filter)\<close>

definition IsFailed :: "int \<Rightarrow> bool" where
  "IsFailed statusCode = (statusCode = 0 \<or> statusCode \<ge> 400)"

definition IsSuccessful :: "int \<Rightarrow> bool" where
  "IsSuccessful statusCode = (statusCode \<ge> 200 \<and> statusCode < 400)"

text \<open>The bounds are \<^verbatim>\<open>*time.Time\<close>: \<open>None\<close> is the nil pointer.\<close>

definition InRange :: "Time \<Rightarrow> Time option \<Rightarrow> Time option \<Rightarrow> bool" where
  "InRange deliveredAt since until =
     (if since \<noteq> None \<and> Before deliveredAt (the since) then False
      else if until \<noteq> None \<and> After deliveredAt (the until) then False
      else True)"

subsection \<open>The strings package, as far as the program uses it\<close>

definition isASCII :: "string \<Rightarrow> bool" where
  "isASCII s = (\<forall>c \<in> set s. of_char c < (128::nat))"

definition lowerByte :: "char \<Rightarrow> char" where
  "lowerByte c =
     (if of_char CHR ''A'' \<le> (of_char c :: nat) \<and> (of_char c :: nat) \<le> of_char CHR ''Z''
      then char_of (of_char c + (32::nat)) else c)"

text \<open>
  \<^verbatim>\<open>strings.ToLower\<close> lowers an ASCII-only string byte by byte and hands any other
  string to \<^verbatim>\<open>strings.Map(unicode.ToLower, s)\<close>. The Unicode tables are not part of
  the repository: that path is the parameter \<open>unicodeLower\<close>.
\<close>

definition ToLower :: "(string \<Rightarrow> string) \<Rightarrow> string \<Rightarrow> string" where
  "ToLower unicodeLower s = (if isASCII s then map lowerByte s else unicodeLower s)"

definition HasPrefix :: "string \<Rightarrow> string \<Rightarrow> bool" where
  "HasPrefix s p = (take (length p) s = p)"

fun Contains :: "string \<Rightarrow> string \<Rightarrow> bool" where
  "Contains [] substr = (substr = [])"
| "Contains (c # s) substr = (HasPrefix (c # s) substr \<or> Contains s substr)"

text \<open>\<^verbatim>\<open>strings.Split\<close> with a separator of one byte (\<^verbatim>\<open>":"\<close> and \<^verbatim>\<open>"/"\<close> in the program).\<close>

fun Split :: "string \<Rightarrow> char \<Rightarrow> string list" where
  "Split [] sep = [[]]"
| "Split (c # s) sep =
     (if c = sep then [] # Split s sep
      else (case Split s sep of [] \<Rightarrow> [[c]] | p # ps \<Rightarrow> (c # p) # ps))"

definition MatchesPattern :: "(string \<Rightarrow> string) \<Rightarrow> string \<Rightarrow> string \<Rightarrow> bool" where
  "MatchesPattern unicodeLower url pattern =
     (if pattern = [] then True
      else Contains (ToLower unicodeLower url) (ToLower unicodeLower pattern))"

subsection \<open>The filter loops of \<^verbatim>\<open>run\<close>\<close>

text \<open>
  Each filter of \<^verbatim>\<open>run\<close> is the same loop: start from an empty slice and append
  every delivery that passes the test.
\<close>

fun appendMatching :: "('a \<Rightarrow> bool) \<Rightarrow> 'a list \<Rightarrow> 'a list \<Rightarrow> 'a list" where
  "appendMatching keep [] out = out"
| "appendMatching keep (d # ds) out =
     appendMatching keep ds (if keep d then out @ [d] else out)"

definition dateRangeFilter :: "Time option \<Rightarrow> Time option \<Rightarrow> Delivery list \<Rightarrow> Delivery list" where
  "dateRangeFilter since until allDeliveries =
     appendMatching (\<lambda>d. InRange (DeliveredAt d) since until) allDeliveries []"

definition statusFilter :: "bool \<Rightarrow> Delivery list \<Rightarrow> Delivery list" where
  "statusFilter failed filteredDeliveries =
     (if failed then appendMatching (\<lambda>d. IsFailed (StatusCode d)) filteredDeliveries []
      else filteredDeliveries)"

lemma appendMatching_filter: "appendMatching keep ds out = out @ filter keep ds"
  by (induction ds arbitrary: out) simp_all


section \<open>The sort package of the Go standard library\<close>

text \<open>
  \<^verbatim>\<open>ApplySort\<close> sorts with \<^verbatim>\<open>sort.Slice\<close>, which is not part of the repository. It is
  modelled as the standard library implements it since Go 1.19 (\<^verbatim>\<open>zsortfunc.go\<close>:
  pattern-defeating quicksort, with insertion sort for at most 12 elements and
  heap sort as fallback). The slice is a list that every \<^verbatim>\<open>Swap\<close> updates, and
  \<^verbatim>\<open>data.Less(i, j)\<close> is \<open>lessf (data ! i) (data ! j)\<close> on the current contents.
  Indices are natural numbers: all of them stay within \<open>a \<le> i < b \<le> length data\<close>
  when the sort is entered with \<open>a = 0\<close> and \<open>b = length data\<close>, as \<^verbatim>\<open>sort.Slice\<close> does.
  The downward scans of the two partition routines stop at index \<open>0\<close> where Go's
  \<^verbatim>\<open>j\<close> would become \<open>-1\<close>; that needs \<open>i = 0\<close>, and \<open>i\<close> starts at \<open>a + 1\<close>.
\<close>

definition Swap :: "'a list \<Rightarrow> nat \<Rightarrow> nat \<Rightarrow> 'a list" where
  "Swap data i j = data[i := data ! j, j := data ! i]"

function insertionSort_shift :: "('a \<Rightarrow> 'a \<Rightarrow> bool) \<Rightarrow> 'a list \<Rightarrow> nat \<Rightarrow> nat \<Rightarrow> 'a list" where
  "insertionSort_shift lessf data a j =
     (if j > a \<and> lessf (data ! j) (data ! (j - 1))
      then insertionSort_shift lessf (Swap data j (j - 1)) a (j - 1)
      else data)"
  by pat_completeness auto
termination
  by (relation "measure (\<lambda>(lessf, data, a, j). j)") auto

declare insertionSort_shift.simps [simp del]

function insertionSort_loop :: "('a \<Rightarrow> 'a \<Rightarrow> bool) \<Rightarrow> 'a list \<Rightarrow> nat \<Rightarrow> nat \<Rightarrow> nat \<Rightarrow> 'a list" where
  "insertionSort_loop lessf data a b i =
     (if i < b then insertionSort_loop lessf (insertionSort_shift lessf data a i) a b (i + 1)
      else data)"
  by pat_completeness auto
termination
  by (relation "measure (\<lambda>(lessf, data, a, b, i). b - i)") auto

declare insertionSort_loop.simps [simp del]

definition insertionSort_func :: "('a \<Rightarrow> 'a \<Rightarrow> bool) \<Rightarrow> 'a list \<Rightarrow> nat \<Rightarrow> nat \<Rightarrow> 'a list" where
  "insertionSort_func lessf data a b = insertionSort_loop lessf data a b (a + 1)"

function siftDown_func :: "('a \<Rightarrow> 'a \<Rightarrow> bool) \<Rightarrow> 'a list \<Rightarrow> nat \<Rightarrow> nat \<Rightarrow> nat \<Rightarrow> 'a list" where
  "siftDown_func lessf data lo hi first =
     (let root = lo; child = 2 * root + 1 in
      if child \<ge> hi then data
      else
        let child = (if child + 1 < hi \<and> lessf (data ! (first + child)) (data ! (first + child + 1))
                     then child + 1 else child)
        in if \<not> lessf (data ! (first + root)) (data ! (first + child)) then data
           else siftDown_func lessf (Swap data (first + root) (first + child)) child hi first)"
  by pat_completeness auto
termination
  by (relation "measure (\<lambda>(lessf, data, lo, hi, first). hi - lo)") (auto simp: Let_def split: if_splits)

declare siftDown_func.simps [simp del]

fun heapSort_build :: "('a \<Rightarrow> 'a \<Rightarrow> bool) \<Rightarrow> 'a list \<Rightarrow> nat \<Rightarrow> nat \<Rightarrow> nat \<Rightarrow> 'a list" where
  "heapSort_build lessf data hi first 0 = siftDown_func lessf data 0 hi first"
| "heapSort_build lessf data hi first (Suc i) =
     heapSort_build lessf (siftDown_func lessf data (Suc i) hi first) hi first i"

fun heapSort_pop :: "('a \<Rightarrow> 'a \<Rightarrow> bool) \<Rightarrow> 'a list \<Rightarrow> nat \<Rightarrow> nat \<Rightarrow> nat \<Rightarrow> 'a list" where
  "heapSort_pop lessf data lo first 0 = siftDown_func lessf (Swap data first (first + 0)) lo 0 first"
| "heapSort_pop lessf data lo first (Suc i) =
     heapSort_pop lessf (siftDown_func lessf (Swap data first (first + Suc i)) lo (Suc i) first) lo first i"

definition heapSort_func :: "('a \<Rightarrow> 'a \<Rightarrow> bool) \<Rightarrow> 'a list \<Rightarrow> nat \<Rightarrow> nat \<Rightarrow> 'a list" where
  "heapSort_func lessf data a b =
     (let first = a; lo = 0; hi = b - a;
          data = heapSort_build lessf data hi first ((hi - 1) div 2)
      in if hi = 0 then data else heapSort_pop lessf data lo first (hi - 1))"

definition xorshift_Next :: "64 word \<Rightarrow> 64 word" where
  "xorshift_Next r =
     (let r = r XOR push_bit 13 r;
          r = r XOR drop_bit 7 r;
          r = r XOR push_bit 17 r
      in r)"

fun bits_Len :: "nat \<Rightarrow> nat" where
  "bits_Len n = (if n = 0 then 0 else Suc (bits_Len (n div 2)))"

declare bits_Len.simps [simp del]

definition nextPowerOfTwo :: "nat \<Rightarrow> 64 word" where
  "nextPowerOfTwo len = (let shift = bits_Len len in push_bit shift 1)"

function breakPatterns_loop :: "'a list \<Rightarrow> nat \<Rightarrow> nat \<Rightarrow> 64 word \<Rightarrow> nat \<Rightarrow> 64 word \<Rightarrow> nat \<Rightarrow> 'a list" where
  "breakPatterns_loop data a len modulus idx random i =
     (if i < 3 then
        let random = xorshift_Next random;
            other = unat (random AND (modulus - 1));
            other = (if other \<ge> len then other - len else other)
        in breakPatterns_loop (Swap data (idx - 1 + i) (a + other)) a len modulus idx random (i + 1)
      else data)"
  by pat_completeness auto
termination
  by (relation "measure (\<lambda>(data, a, len, modulus, idx, random, i). 3 - i)") auto

declare breakPatterns_loop.simps [simp del]

definition breakPatterns_func :: "'a list \<Rightarrow> nat \<Rightarrow> nat \<Rightarrow> 'a list" where
  "breakPatterns_func data a b =
     (let len = b - a in
      if len \<ge> 8 then
        let random = (of_nat len :: 64 word);
            modulus = nextPowerOfTwo len;
            idx = a + (len div 4) * 2 - 1
        in breakPatterns_loop data a len modulus idx random 0
      else data)"

datatype sortedHint = unknownHint | increasingHint | decreasingHint

definition order2_func :: "('a \<Rightarrow> 'a \<Rightarrow> bool) \<Rightarrow> 'a list \<Rightarrow> nat \<Rightarrow> nat \<Rightarrow> nat \<Rightarrow> nat \<times> nat \<times> nat" where
  "order2_func lessf data a b swaps =
     (if lessf (data ! b) (data ! a) then (b, a, swaps + 1) else (a, b, swaps))"

definition median_func :: "('a \<Rightarrow> 'a \<Rightarrow> bool) \<Rightarrow> 'a list \<Rightarrow> nat \<Rightarrow> nat \<Rightarrow> nat \<Rightarrow> nat \<Rightarrow> nat \<times> nat" where
  "median_func lessf data a b c swaps =
     (let (a, b, swaps) = order2_func lessf data a b swaps;
          (b, c, swaps) = order2_func lessf data b c swaps;
          (a, b, swaps) = order2_func lessf data a b swaps
      in (b, swaps))"

definition medianAdjacent_func :: "('a \<Rightarrow> 'a \<Rightarrow> bool) \<Rightarrow> 'a list \<Rightarrow> nat \<Rightarrow> nat \<Rightarrow> nat \<times> nat" where
  "medianAdjacent_func lessf data a swaps = median_func lessf data (a - 1) a (a + 1) swaps"

definition choosePivot_func :: "('a \<Rightarrow> 'a \<Rightarrow> bool) \<Rightarrow> 'a list \<Rightarrow> nat \<Rightarrow> nat \<Rightarrow> nat \<times> sortedHint" where
  "choosePivot_func lessf data a b =
     (let shortestNinther = 50;
          maxSwaps = 4 * 3;
          l = b - a;
          swaps = 0;
          i = a + l div 4 * 1;
          j = a + l div 4 * 2;
          k = a + l div 4 * 3;
          (j, swaps) =
            (if l \<ge> 8 then
               let (i, j, k, swaps) =
                     (if l \<ge> shortestNinther then
                        let (i, swaps) = medianAdjacent_func lessf data i swaps;
                            (j, swaps) = medianAdjacent_func lessf data j swaps;
                            (k, swaps) = medianAdjacent_func lessf data k swaps
                        in (i, j, k, swaps)
                      else (i, j, k, swaps))
               in median_func lessf data i j k swaps
             else (j, swaps))
      in if swaps = 0 then (j, increasingHint)
         else if swaps = maxSwaps then (j, decreasingHint)
         else (j, unknownHint))"

function reverseRange_loop :: "'a list \<Rightarrow> nat \<Rightarrow> nat \<Rightarrow> 'a list" where
  "reverseRange_loop data i j =
     (if i < j then reverseRange_loop (Swap data i j) (i + 1) (j - 1) else data)"
  by pat_completeness auto
termination
  by (relation "measure (\<lambda>(data, i, j). j - i)") auto

declare reverseRange_loop.simps [simp del]

definition reverseRange_func :: "'a list \<Rightarrow> nat \<Rightarrow> nat \<Rightarrow> 'a list" where
  "reverseRange_func data a b = reverseRange_loop data a (b - 1)"

function partialInsertionSort_skip :: "('a \<Rightarrow> 'a \<Rightarrow> bool) \<Rightarrow> 'a list \<Rightarrow> nat \<Rightarrow> nat \<Rightarrow> nat" where
  "partialInsertionSort_skip lessf data b i =
     (if i < b \<and> \<not> lessf (data ! i) (data ! (i - 1))
      then partialInsertionSort_skip lessf data b (i + 1) else i)"
  by pat_completeness auto
termination
  by (relation "measure (\<lambda>(lessf, data, b, i). b - i)") auto

declare partialInsertionSort_skip.simps [simp del]

function partialInsertionSort_left :: "('a \<Rightarrow> 'a \<Rightarrow> bool) \<Rightarrow> 'a list \<Rightarrow> nat \<Rightarrow> 'a list" where
  "partialInsertionSort_left lessf data j =
     (if j \<ge> 1 then
        (if \<not> lessf (data ! j) (data ! (j - 1)) then data
         else partialInsertionSort_left lessf (Swap data j (j - 1)) (j - 1))
      else data)"
  by pat_completeness auto
termination
  by (relation "measure (\<lambda>(lessf, data, j). j)") auto

declare partialInsertionSort_left.simps [simp del]

function partialInsertionSort_right :: "('a \<Rightarrow> 'a \<Rightarrow> bool) \<Rightarrow> 'a list \<Rightarrow> nat \<Rightarrow> nat \<Rightarrow> 'a list" where
  "partialInsertionSort_right lessf data b j =
     (if j < b then
        (if \<not> lessf (data ! j) (data ! (j - 1)) then data
         else partialInsertionSort_right lessf (Swap data j (j - 1)) b (j + 1))
      else data)"
  by pat_completeness auto
termination
  by (relation "measure (\<lambda>(lessf, data, b, j). b - j)") auto

declare partialInsertionSort_right.simps [simp del]

function partialInsertionSort_loop ::
  "('a \<Rightarrow> 'a \<Rightarrow> bool) \<Rightarrow> 'a list \<Rightarrow> nat \<Rightarrow> nat \<Rightarrow> nat \<Rightarrow> nat \<Rightarrow> 'a list \<times> bool" where
  "partialInsertionSort_loop lessf data a b i j =
     (let maxSteps = 5; shortestShifting = 50 in
      if j < maxSteps then
        let i = partialInsertionSort_skip lessf data b i in
        if i = b then (data, True)
        else if b - a < shortestShifting then (data, False)
        else
          let data = Swap data i (i - 1);
              data = (if i - a \<ge> 2 then partialInsertionSort_left lessf data (i - 1) else data);
              data = (if b - i \<ge> 2 then partialInsertionSort_right lessf data b (i + 1) else data)
          in partialInsertionSort_loop lessf data a b i (j + 1)
      else (data, False))"
  by pat_completeness auto
termination
  by (relation "measure (\<lambda>(lessf, data, a, b, i, j). 5 - j)") auto

declare partialInsertionSort_loop.simps [simp del]

definition partialInsertionSort_func :: "('a \<Rightarrow> 'a \<Rightarrow> bool) \<Rightarrow> 'a list \<Rightarrow> nat \<Rightarrow> nat \<Rightarrow> 'a list \<times> bool" where
  "partialInsertionSort_func lessf data a b = partialInsertionSort_loop lessf data a b (a + 1) 0"


function partition_up :: "('a \<Rightarrow> 'a \<Rightarrow> bool) \<Rightarrow> 'a list \<Rightarrow> nat \<Rightarrow> nat \<Rightarrow> nat \<Rightarrow> nat" where
  "partition_up lessf data a i j =
     (if i \<le> j \<and> lessf (data ! i) (data ! a) then partition_up lessf data a (i + 1) j else i)"
  by pat_completeness auto
termination
  by (relation "measure (\<lambda>(lessf, data, a, i, j). Suc j - i)") auto

declare partition_up.simps [simp del]

function partition_down :: "('a \<Rightarrow> 'a \<Rightarrow> bool) \<Rightarrow> 'a list \<Rightarrow> nat \<Rightarrow> nat \<Rightarrow> nat \<Rightarrow> nat" where
  "partition_down lessf data a i j =
     (if i \<le> j \<and> 0 < j \<and> \<not> lessf (data ! j) (data ! a)
      then partition_down lessf data a i (j - 1) else j)"
  by pat_completeness auto
termination
  by (relation "measure (\<lambda>(lessf, data, a, i, j). j)") auto

declare partition_down.simps [simp del]

lemma partition_up_ge: "i \<le> partition_up lessf data a i j"
  by (induction lessf data a i j rule: partition_up.induct)
     (subst partition_up.simps, auto)

lemma partition_down_le: "partition_down lessf data a i j \<le> j"
  by (induction lessf data a i j rule: partition_down.induct)
     (subst partition_down.simps, auto)

function partition_loop :: "('a \<Rightarrow> 'a \<Rightarrow> bool) \<Rightarrow> 'a list \<Rightarrow> nat \<Rightarrow> nat \<Rightarrow> nat \<Rightarrow> 'a list \<times> nat" where
  "partition_loop lessf data a i j =
     (let i = partition_up lessf data a i j;
          j = partition_down lessf data a i j
      in if i > j then (data, j)
         else partition_loop lessf (Swap data i j) a (i + 1) (j - 1))"
  by pat_completeness auto
termination
proof (relation "measure (\<lambda>(lessf, data, a, i, j). Suc j - i)", goal_cases)
  case 1
  show ?case by simp
next
  case (2 lessf data a i j i' j')
  have "i \<le> i'" using 2 partition_up_ge by metis
  moreover have "j' \<le> j" using 2 partition_down_le by metis
  ultimately show ?case using 2 by simp
qed

declare partition_loop.simps [simp del]

definition partition_func ::
  "('a \<Rightarrow> 'a \<Rightarrow> bool) \<Rightarrow> 'a list \<Rightarrow> nat \<Rightarrow> nat \<Rightarrow> nat \<Rightarrow> 'a list \<times> nat \<times> bool" where
  "partition_func lessf data a b pivot =
     (let data = Swap data a pivot;
          i = a + 1;
          j = b - 1;
          i = partition_up lessf data a i j;
          j = partition_down lessf data a i j
      in if i > j then (Swap data j a, j, True)
         else
           let data = Swap data i j;
               i = i + 1;
               j = j - 1;
               (data, j) = partition_loop lessf data a i j
           in (Swap data j a, j, False))"

function partitionEqual_up :: "('a \<Rightarrow> 'a \<Rightarrow> bool) \<Rightarrow> 'a list \<Rightarrow> nat \<Rightarrow> nat \<Rightarrow> nat \<Rightarrow> nat" where
  "partitionEqual_up lessf data a i j =
     (if i \<le> j \<and> \<not> lessf (data ! a) (data ! i) then partitionEqual_up lessf data a (i + 1) j else i)"
  by pat_completeness auto
termination
  by (relation "measure (\<lambda>(lessf, data, a, i, j). Suc j - i)") auto

declare partitionEqual_up.simps [simp del]

function partitionEqual_down :: "('a \<Rightarrow> 'a \<Rightarrow> bool) \<Rightarrow> 'a list \<Rightarrow> nat \<Rightarrow> nat \<Rightarrow> nat \<Rightarrow> nat" where
  "partitionEqual_down lessf data a i j =
     (if i \<le> j \<and> 0 < j \<and> lessf (data ! a) (data ! j)
      then partitionEqual_down lessf data a i (j - 1) else j)"
  by pat_completeness auto
termination
  by (relation "measure (\<lambda>(lessf, data, a, i, j). j)") auto

declare partitionEqual_down.simps [simp del]

lemma partitionEqual_up_ge: "i \<le> partitionEqual_up lessf data a i j"
  by (induction lessf data a i j rule: partitionEqual_up.induct)
     (subst partitionEqual_up.simps, auto)

lemma partitionEqual_down_le: "partitionEqual_down lessf data a i j \<le> j"
  by (induction lessf data a i j rule: partitionEqual_down.induct)
     (subst partitionEqual_down.simps, auto)

function partitionEqual_loop :: "('a \<Rightarrow> 'a \<Rightarrow> bool) \<Rightarrow> 'a list \<Rightarrow> nat \<Rightarrow> nat \<Rightarrow> nat \<Rightarrow> 'a list \<times> nat" where
  "partitionEqual_loop lessf data a i j =
     (let i = partitionEqual_up lessf data a i j;
          j = partitionEqual_down lessf data a i j
      in if i > j then (data, i)
         else partitionEqual_loop lessf (Swap data i j) a (i + 1) (j - 1))"
  by pat_completeness auto
termination
proof (relation "measure (\<lambda>(lessf, data, a, i, j). Suc j - i)", goal_cases)
  case 1
  show ?case by simp
next
  case (2 lessf data a i j i' j')
  have "i \<le> i'" using 2 partitionEqual_up_ge by metis
  moreover have "j' \<le> j" using 2 partitionEqual_down_le by metis
  ultimately show ?case using 2 by simp
qed

declare partitionEqual_loop.simps [simp del]

definition partitionEqual_func ::
  "('a \<Rightarrow> 'a \<Rightarrow> bool) \<Rightarrow> 'a list \<Rightarrow> nat \<Rightarrow> nat \<Rightarrow> nat \<Rightarrow> 'a list \<times> nat" where
  "partitionEqual_func lessf data a b pivot =
     (let data = Swap data a pivot;
          i = a + 1;
          j = b - 1
      in partitionEqual_loop lessf data a i j)"

lemma partition_up_le: "i \<le> Suc j \<Longrightarrow> partition_up lessf data a i j \<le> Suc j"
  by (induction lessf data a i j rule: partition_up.induct)
     (subst partition_up.simps, auto)

lemma partition_down_ge: "i \<le> Suc j \<Longrightarrow> i \<le> Suc (partition_down lessf data a i j)"
  by (induction lessf data a i j rule: partition_down.induct)
     (subst partition_down.simps, auto)

lemma partition_up_stop:
  "partition_up lessf data a i j \<le> j \<Longrightarrow> \<not> lessf (data ! partition_up lessf data a i j) (data ! a)"
  by (induction lessf data a i j rule: partition_up.induct)
     (subst (asm) partition_up.simps, subst partition_up.simps, auto)

lemma partition_down_stop:
  "i \<le> partition_down lessf data a i j \<Longrightarrow> 0 < partition_down lessf data a i j \<Longrightarrow>
   lessf (data ! partition_down lessf data a i j) (data ! a)"
  by (induction lessf data a i j rule: partition_down.induct)
     (subst (asm) (1 2) partition_down.simps, subst partition_down.simps, auto split: if_splits)

lemma partition_scans:
  assumes "1 \<le> i" "i \<le> Suc j"
    and i'_def: "i' = partition_up lessf data a i j"
    and j'_def: "j' = partition_down lessf data a i' j"
  shows "i \<le> i'" "i' \<le> Suc j'" "j' \<le> j" "i' \<le> j' \<Longrightarrow> i' < j'"
proof -
  show i: "i \<le> i'" unfolding i'_def by (rule partition_up_ge)
  have "i' \<le> Suc j" unfolding i'_def using assms(2) by (rule partition_up_le)
  then show "i' \<le> Suc j'" unfolding j'_def by (rule partition_down_ge)
  show j: "j' \<le> j" unfolding j'_def by (rule partition_down_le)
  assume le: "i' \<le> j'"
  then have "i' \<le> j" using j by simp
  then have n: "\<not> lessf (data ! i') (data ! a)"
    unfolding i'_def by (rule partition_up_stop)
  have "0 < j'" using le i assms(1) by simp
  with le have "lessf (data ! j') (data ! a)"
    using partition_down_stop[of i' lessf data a j] unfolding j'_def by simp
  with n have "i' \<noteq> j'" by auto
  with le show "i' < j'" by simp
qed

lemma partition_loop_bounds:
  "1 \<le> i \<Longrightarrow> i \<le> Suc j \<Longrightarrow>
   i \<le> Suc (snd (partition_loop lessf data a i j)) \<and> snd (partition_loop lessf data a i j) \<le> j"
proof (induction lessf data a i j rule: partition_loop.induct)
  case (1 lessf data a i j)
  define i' where "i' = partition_up lessf data a i j"
  define j' where "j' = partition_down lessf data a i' j"
  note s = partition_scans[OF 1(2,3) i'_def j'_def]
  have unf: "partition_loop lessf data a i j =
      (if i' > j' then (data, j') else partition_loop lessf (Swap data i' j') a (i' + 1) (j' - 1))"
    by (subst partition_loop.simps) (simp add: Let_def i'_def j'_def)
  show ?case
  proof (cases "i' > j'")
    case True
    then show ?thesis using s(1-3) unf by simp
  next
    case False
    then have lt: "i' < j'" using s(4) by simp
    then have "1 \<le> i' + 1" "i' + 1 \<le> Suc (j' - 1)" by simp_all
    from 1(1)[OF i'_def[symmetric, THEN sym] j'_def[symmetric, THEN sym] False this]
    have "i' + 1 \<le> Suc (snd (partition_loop lessf (Swap data i' j') a (i' + 1) (j' - 1)))"
      and "snd (partition_loop lessf (Swap data i' j') a (i' + 1) (j' - 1)) \<le> j' - 1"
      by simp_all
    then show ?thesis using s(1-3) lt unf False by simp
  qed
qed

lemma partition_func_bounds:
  assumes "a < b"
  shows "a \<le> fst (snd (partition_func lessf data a b pivot)) \<and> fst (snd (partition_func lessf data a b pivot)) < b"
proof -
  define d where "d = Swap data a pivot"
  define i' where "i' = partition_up lessf d a (a + 1) (b - 1)"
  define j' where "j' = partition_down lessf d a i' (b - 1)"
  have "1 \<le> a + 1" "a + 1 \<le> Suc (b - 1)" using assms by simp_all
  note s = partition_scans[OF this i'_def j'_def]
  have unf: "fst (snd (partition_func lessf data a b pivot)) =
      (if i' > j' then j' else snd (partition_loop lessf (Swap d i' j') a (i' + 1) (j' - 1)))"
    by (simp add: partition_func_def Let_def d_def i'_def j'_def split: prod.splits)
  show ?thesis
  proof (cases "i' > j'")
    case True
    then show ?thesis using s(1-3) assms unf by simp
  next
    case False
    then have lt: "i' < j'" using s(4) by simp
    then have "1 \<le> i' + 1" "i' + 1 \<le> Suc (j' - 1)" by simp_all
    from partition_loop_bounds[OF this, of lessf "Swap d i' j'" a]
    have "i' + 1 \<le> Suc (snd (partition_loop lessf (Swap d i' j') a (i' + 1) (j' - 1)))"
      and "snd (partition_loop lessf (Swap d i' j') a (i' + 1) (j' - 1)) \<le> j' - 1"
      by simp_all
    then show ?thesis using s(1-3) lt assms unf False by simp
  qed
qed

lemma partitionEqual_loop_ge: "i \<le> snd (partitionEqual_loop lessf data a i j)"
proof (induction lessf data a i j rule: partitionEqual_loop.induct)
  case (1 lessf data a i j)
  let ?i = "partitionEqual_up lessf data a i j"
  let ?j = "partitionEqual_down lessf data a ?i j"
  have i: "i \<le> ?i" using partitionEqual_up_ge by metis
  show ?case
  proof (cases "?i > ?j")
    case True
    then show ?thesis using i by (subst partitionEqual_loop.simps) (simp add: Let_def)
  next
    case False
    from 1[OF refl refl False] i False
    show ?thesis by (subst partitionEqual_loop.simps) (simp add: Let_def)
  qed
qed

lemma partitionEqual_func_gt: "a < snd (partitionEqual_func lessf data a b pivot)"
  using partitionEqual_loop_ge[of "a + 1" lessf "Swap data a pivot" a "b - 1"]
  by (simp add: partitionEqual_func_def Let_def)

lemma partitionEqual_func_mid:
  "(d, m) = partitionEqual_func lessf data a b pivot \<Longrightarrow> a < m"
  using partitionEqual_func_gt[of a lessf data b pivot] by (metis snd_conv)

lemma partition_func_mid:
  "(d, m, p) = partition_func lessf data a b pivot \<Longrightarrow> a < b \<Longrightarrow> a \<le> m \<and> m < b"
  using partition_func_bounds[of a b lessf data pivot] by (metis fst_conv snd_conv)

lemma pdqsort_measure:
  fixes a b m :: nat
  shows "a \<le> m \<Longrightarrow> m < b \<Longrightarrow> m - a < b - a"
    and "a \<le> m \<Longrightarrow> m < b \<Longrightarrow> b - Suc m < b - a"
    and "a < m \<Longrightarrow> \<not> b - a \<le> 12 \<Longrightarrow> b - m < b - a"
  by arith+

function pdqsort_func ::
  "('a \<Rightarrow> 'a \<Rightarrow> bool) \<Rightarrow> 'a list \<Rightarrow> nat \<Rightarrow> nat \<Rightarrow> nat \<Rightarrow> bool \<Rightarrow> bool \<Rightarrow> 'a list" where
  "pdqsort_func lessf data a b limit wasBalanced wasPartitioned =
     (let maxInsertion = 12; len = b - a in
      if len \<le> maxInsertion then insertionSort_func lessf data a b
      else if limit = 0 then heapSort_func lessf data a b
      else
        let (data, limit) =
              (if \<not> wasBalanced then (breakPatterns_func data a b, limit - 1) else (data, limit));
            (pivot, hint) = choosePivot_func lessf data a b;
            (data, pivot, hint) =
              (if hint = decreasingHint
               then (reverseRange_func data a b, (b - 1) - (pivot - a), increasingHint)
               else (data, pivot, hint));
            (data, sorted) =
              (if wasBalanced \<and> wasPartitioned \<and> hint = increasingHint
               then partialInsertionSort_func lessf data a b else (data, False))
        in if sorted then data
           else if a > 0 \<and> \<not> lessf (data ! (a - 1)) (data ! pivot) then
             let (data, mid) = partitionEqual_func lessf data a b pivot
             in pdqsort_func lessf data mid b limit wasBalanced wasPartitioned
           else
             let (data, mid, alreadyPartitioned) = partition_func lessf data a b pivot;
                 wasPartitioned = alreadyPartitioned;
                 leftLen = mid - a;
                 rightLen = b - mid;
                 balanceThreshold = len div 8
             in if leftLen < rightLen then
                  pdqsort_func lessf (pdqsort_func lessf data a mid limit True True)
                    (mid + 1) b limit (leftLen \<ge> balanceThreshold) wasPartitioned
                else
                  pdqsort_func lessf (pdqsort_func lessf data (mid + 1) b limit True True)
                    a mid limit (rightLen \<ge> balanceThreshold) wasPartitioned)"
  by pat_completeness auto
termination
proof (relation "measure (\<lambda>(lessf, data, a, b, limit, wb, wp). b - a)", goal_cases)
  case 1
  show ?case by simp
next
  case 2
  then show ?case by (auto dest!: partitionEqual_func_mid intro: pdqsort_measure)
next
  case 3
  then show ?case by (auto dest!: partition_func_mid intro: pdqsort_measure)
next
  case 4
  then show ?case by (auto dest!: partition_func_mid intro: pdqsort_measure)
next
  case 5
  then show ?case by (auto dest!: partition_func_mid intro: pdqsort_measure)
next
  case 6
  then show ?case by (auto dest!: partition_func_mid intro: pdqsort_measure)
qed

declare pdqsort_func.simps [simp del]

definition sort_Slice :: "('a \<Rightarrow> 'a \<Rightarrow> bool) \<Rightarrow> 'a list \<Rightarrow> 'a list" where
  "sort_Slice lessf x =
     (let len = length x; limit = bits_Len len
      in pdqsort_func lessf x 0 len limit True True)"



section \<open>Ordering policy (internal/github)\<close>

definition Compare :: "string \<Rightarrow> string \<Rightarrow> int" where
  "Compare a b = (if a = b then 0 else if a < b then - 1 else 1)"

definition SortDeliveriesByTime :: "Delivery list \<Rightarrow> bool \<Rightarrow> Delivery list" where
  "SortDeliveriesByTime deliveries ascending =
     sort_Slice (\<lambda>di dj.
        if ascending then Before (DeliveredAt di) (DeliveredAt dj)
        else After (DeliveredAt di) (DeliveredAt dj)) deliveries"

definition SortDeliveriesByRepository :: "Delivery list \<Rightarrow> bool \<Rightarrow> Delivery list" where
  "SortDeliveriesByRepository deliveries ascending =
     sort_Slice (\<lambda>di dj.
        let cmp = Compare (Repository di) (Repository dj)
        in if ascending then cmp < 0 else cmp > 0) deliveries"

definition SortDeliveriesByStatusCode :: "Delivery list \<Rightarrow> bool \<Rightarrow> Delivery list" where
  "SortDeliveriesByStatusCode deliveries ascending =
     sort_Slice (\<lambda>di dj.
        if ascending then StatusCode di < StatusCode dj
        else StatusCode di > StatusCode dj) deliveries"

definition SortDeliveriesByEvent :: "Delivery list \<Rightarrow> bool \<Rightarrow> Delivery list" where
  "SortDeliveriesByEvent deliveries ascending =
     sort_Slice (\<lambda>di dj.
        let cmp = Compare (Event di) (Event dj)
        in if ascending then cmp < 0 else cmp > 0) deliveries"

text \<open>The sort is in place; the model returns the sorted slice.\<close>

definition ApplySort :: "Delivery list \<Rightarrow> string \<Rightarrow> bool \<Rightarrow> Delivery list" where
  "ApplySort deliveries sortBy ascending =
     (if sortBy = ''repository'' then SortDeliveriesByRepository deliveries ascending
      else if sortBy = ''code'' then SortDeliveriesByStatusCode deliveries ascending
      else if sortBy = ''event'' then SortDeliveriesByEvent deliveries ascending
      else if sortBy = ''timestamp'' then SortDeliveriesByTime deliveries ascending
      else SortDeliveriesByTime deliveries False)"

section \<open>Configuration (internal/config)\<close>

record Config =
  Org :: string
  Repo :: string
  Filter :: string
  Since :: "Time option"
  Until :: "Time option"
  JSONOutput :: bool
  Failed :: bool
  Head :: int
  SortBy :: string

definition validFields :: "string list" where
  "validFields = [''repository'', ''timestamp'', ''code'', ''event'']"

definition Validate :: "Config \<Rightarrow> error option" where
  "Validate c =
     (if Org c = [] \<and> Repo c = [] then Some OrgOrRepoRequired
      else if Org c \<noteq> [] \<and> Repo c \<noteq> [] then Some OrgAndRepoExclusive
      else if Repo c \<noteq> [] \<and>
              (let parts = Split (Repo c) CHR ''/''
               in length parts \<noteq> 2 \<or> parts ! 0 = [] \<or> parts ! 1 = [])
           then Some RepoFormat
      else if Since c \<noteq> None \<and> Until c \<noteq> None \<and> After (the (Since c)) (the (Until c))
           then Some SinceAfterUntil
      else if Head c < 0 then Some HeadNegative
      else if SortBy c \<noteq> [] then
        (let parts = Split (SortBy c) CHR '':'' in
         if length parts > 2 then Some SortFormat
         else
           let field = parts ! 0 in
           if field \<notin> set validFields then Some SortFieldUnknown
           else if length parts = 2 then
             (let order = parts ! 1 in
              if order \<noteq> ''asc'' \<and> order \<noteq> ''desc'' then Some SortOrderUnknown else None)
           else None)
      else None)"

text \<open>
  \<^verbatim>\<open>time.Parse("2006-01-02", s)\<close> is the collaborator \<open>parseDate\<close>: it returns the
  instant of 00:00:00 UTC of the day that \<open>s\<close> names. The end of that day,
  23:59:59.999999999, is 86399999999999 nanoseconds later.
\<close>

definition ParseDateRange ::
  "(string \<Rightarrow> error + Time) \<Rightarrow> string \<Rightarrow> string \<Rightarrow> error + (Time option \<times> Time option)" where
  "ParseDateRange parseDate sinceStr untilStr =
     (case (if sinceStr \<noteq> [] then map_sum id Some (parseDate sinceStr) else Inr None) of
        Inl err \<Rightarrow> Inl (InvalidSince err)
      | Inr since \<Rightarrow>
          (case (if untilStr \<noteq> [] then map_sum id Some (parseDate untilStr) else Inr None) of
             Inl err \<Rightarrow> Inl (InvalidUntil err)
           | Inr until \<Rightarrow> Inr (since, map_option (\<lambda>t. t + 86399999999999) until)))"

definition GetSortConfig :: "Config \<Rightarrow> string \<times> bool" where
  "GetSortConfig c =
     (if SortBy c = [] then (''timestamp'', False)
      else
        let parts = Split (SortBy c) CHR '':'';
            field = parts ! 0
        in if length parts = 2 then (field, parts ! 1 = ''asc'')
           else if field = ''repository'' \<or> field = ''event'' then (field, True)
           else if field = ''timestamp'' \<or> field = ''code'' then (field, False)
           else (''timestamp'', False))"


section \<open>Remote API client (internal/github)\<close>

text \<open>
  The REST transport and the JSON decoding are collaborators: a \<open>Client\<close> holds, for
  each endpoint the program reads, the decoded response or the transport's error.
  Every request is recorded in the \<open>calls\<close> of the \<open>World\<close>, and every line written
  to the diagnostic channel in its \<open>stderr\<close>.
\<close>

record Client =
  orgRepos :: "string \<Rightarrow> error + string list"
  repoHooks :: "string \<Rightarrow> error + Hook list"
  hookDeliveries :: "string \<Rightarrow> int \<Rightarrow> int \<Rightarrow> error + Delivery list"
  deliveryDetail :: "string \<Rightarrow> int \<Rightarrow> int \<Rightarrow> error + DeliveryDetail"

datatype call =
    GetOrgRepos string
  | GetRepoHooks string
  | GetHookDeliveries string int int
  | GetDeliveryDetail string int int

datatype message =
    FetchingRepositories string
  | FoundRepositories nat
  | ProcessingRepository string
  | WarningRepository string error
  | WarningHookDeliveries int error
  | WarningDetail error

record World =
  calls :: "call list"
  stderr :: "message list"

definition request :: "call \<Rightarrow> World \<Rightarrow> World" where
  "request c w = w\<lparr>calls := calls w @ [c]\<rparr>"

definition printErr :: "message \<Rightarrow> World \<Rightarrow> World" where
  "printErr m w = w\<lparr>stderr := stderr w @ [m]\<rparr>"

text \<open>
  \<^verbatim>\<open>ListOrgRepos\<close> pages through the endpoint; \<open>orgRepos\<close> is the outcome of the whole
  paging loop.
\<close>

definition ListOrgRepos :: "Client \<Rightarrow> string \<Rightarrow> World \<Rightarrow> (error + string list) \<times> World" where
  "ListOrgRepos c org w =
     (case orgRepos c org of
        Inl err \<Rightarrow> (Inl (ListOrgReposFailed err), request (GetOrgRepos org) w)
      | Inr names \<Rightarrow> (Inr names, request (GetOrgRepos org) w))"

definition ListRepoWebhooks :: "Client \<Rightarrow> string \<Rightarrow> World \<Rightarrow> (error + Hook list) \<times> World" where
  "ListRepoWebhooks c repo w =
     (case repoHooks c repo of
        Inl err \<Rightarrow> (Inl (ListRepoWebhooksFailed err), request (GetRepoHooks repo) w)
      | Inr hooks \<Rightarrow> (Inr hooks, request (GetRepoHooks repo) w))"

definition ListRepoHookDeliveries ::
  "Client \<Rightarrow> string \<Rightarrow> int \<Rightarrow> int \<Rightarrow> World \<Rightarrow> (error + Delivery list) \<times> World" where
  "ListRepoHookDeliveries c repo hookID perPage w =
     (let perPage = (if perPage \<le> 0 then 100 else perPage);
          w = request (GetHookDeliveries repo hookID perPage) w
      in case hookDeliveries c repo hookID perPage of
           Inl err \<Rightarrow> (Inl (ListDeliveriesFailed hookID err), w)
         | Inr deliveries \<Rightarrow>
             (Inr (map (\<lambda>d. d\<lparr>Repository := repo, HookID := hookID\<rparr>) deliveries), w))"

definition GetRepoHookDeliveryDetail ::
  "Client \<Rightarrow> string \<Rightarrow> int \<Rightarrow> int \<Rightarrow> World \<Rightarrow> (error + DeliveryDetail) \<times> World" where
  "GetRepoHookDeliveryDetail c repo hookID deliveryID w =
     (let w = request (GetDeliveryDetail repo hookID deliveryID) w
      in case deliveryDetail c repo hookID deliveryID of
           Inl err \<Rightarrow> (Inl (GetDeliveryDetailFailed err), w)
         | Inr detail \<Rightarrow> (Inr (detail\<lparr>Repository := repo, HookID := hookID\<rparr>), w))"

definition GetTargetURL :: "Hook \<Rightarrow> string" where
  "GetTargetURL h = (if HookConfig.URL (Config h) \<noteq> [] then HookConfig.URL (Config h) else [])"

definition MatchesFilter :: "(string \<Rightarrow> string) \<Rightarrow> Hook \<Rightarrow> string \<Rightarrow> bool" where
  "MatchesFilter unicodeLower h pattern =
     (if pattern = [] then True
      else
        let targetURL = GetTargetURL h
        in Contains (ToLower unicodeLower targetURL) (ToLower unicodeLower pattern))"

section \<open>Aggregation pipeline (cmd/root.go)\<close>

text \<open>
  The package-level \<^verbatim>\<open>cfg\<close> is passed explicitly. \<open>hooksLoop\<close> is the loop of
  \<^verbatim>\<open>processRepository\<close> over the hooks of one repository.
\<close>

fun hooksLoop ::
  "(string \<Rightarrow> string) \<Rightarrow> Config \<Rightarrow> Client \<Rightarrow> string \<Rightarrow> Hook list \<Rightarrow> Delivery list \<Rightarrow> World
     \<Rightarrow> Delivery list \<times> World" where
  "hooksLoop unicodeLower cfg client repo [] allDeliveries w = (allDeliveries, w)"
| "hooksLoop unicodeLower cfg client repo (hook # hooks) allDeliveries w =
     (if Filter cfg \<noteq> [] \<and> \<not> MatchesFilter unicodeLower hook (Filter cfg)
      then hooksLoop unicodeLower cfg client repo hooks allDeliveries w
      else
        (case ListRepoHookDeliveries client repo (Hook.ID hook) 100 w of
           (Inl err, w) \<Rightarrow>
             hooksLoop unicodeLower cfg client repo hooks allDeliveries
               (printErr (WarningHookDeliveries (Hook.ID hook) err) w)
         | (Inr deliveries, w) \<Rightarrow>
             let targetURL = GetTargetURL hook;
                 deliveries = map (\<lambda>d. d\<lparr>Delivery.URL := targetURL\<rparr>) deliveries
             in hooksLoop unicodeLower cfg client repo hooks (allDeliveries @ deliveries) w))"

definition processRepository ::
  "(string \<Rightarrow> string) \<Rightarrow> Config \<Rightarrow> Client \<Rightarrow> string \<Rightarrow> World \<Rightarrow> (error + Delivery list) \<times> World" where
  "processRepository unicodeLower cfg client repo w =
     (case ListRepoWebhooks client repo w of
        (Inl err, w) \<Rightarrow> (Inl (ListWebhooksFailed err), w)
      | (Inr hooks, w) \<Rightarrow>
          if length hooks = 0 then (Inr [], w)
          else
            let (allDeliveries, w) = hooksLoop unicodeLower cfg client repo hooks [] w
            in (Inr allDeliveries, w))"

subsection \<open>The two worker pools, seen from the collecting goroutine\<close>

text \<open>
  The order in which results leave the channels depends on the scheduler. In the
  functions of this section it is a parameter: \<open>arrival xs\<close> is the submitted items
  \<open>xs\<close> in the order in which their results are received. The effects of one work
  item are recorded together, in that order. The goroutines themselves are modelled
  in the next section.
\<close>

definition numWorkers :: "nat \<Rightarrow> nat \<Rightarrow> nat" where
  "numWorkers maxConcurrent n = (if n < maxConcurrent then n else maxConcurrent)"

fun collectRepos ::
  "(string \<Rightarrow> string) \<Rightarrow> Config \<Rightarrow> Client \<Rightarrow> string list \<Rightarrow> Delivery list \<Rightarrow> World
     \<Rightarrow> Delivery list \<times> World" where
  "collectRepos unicodeLower cfg client [] allDeliveries w = (allDeliveries, w)"
| "collectRepos unicodeLower cfg client (repo # repos) allDeliveries w =
     (case processRepository unicodeLower cfg client repo (printErr (ProcessingRepository repo) w) of
        (Inl err, w) \<Rightarrow>
          collectRepos unicodeLower cfg client repos allDeliveries
            (printErr (WarningRepository repo err) w)
      | (Inr deliveries, w) \<Rightarrow>
          collectRepos unicodeLower cfg client repos (allDeliveries @ deliveries) w)"

definition processOrganization ::
  "(string \<Rightarrow> string) \<Rightarrow> (string list \<Rightarrow> string list) \<Rightarrow> Config \<Rightarrow> Client \<Rightarrow> string \<Rightarrow> World
     \<Rightarrow> (error + Delivery list) \<times> World" where
  "processOrganization unicodeLower arrival cfg client org w =
     (case ListOrgRepos client org (printErr (FetchingRepositories org) w) of
        (Inl err, w) \<Rightarrow> (Inl (ListOrganizationFailed err), w)
      | (Inr repos, w) \<Rightarrow>
          let w = printErr (FoundRepositories (length repos)) w
          in if length repos = 0 then (Inr [], w)
             else
               let (allDeliveries, w) =
                     collectRepos unicodeLower cfg client (arrival repos) [] w
               in (Inr allDeliveries, w))"

fun collectDetails ::
  "Client \<Rightarrow> Delivery list \<Rightarrow> Delivery list \<Rightarrow> World \<Rightarrow> Delivery list \<times> World" where
  "collectDetails client [] detailedDeliveries w = (detailedDeliveries, w)"
| "collectDetails client (d # ds) detailedDeliveries w =
     (case GetRepoHookDeliveryDetail client (Repository d) (HookID d) (Delivery.ID d) w of
        (Inl err, w) \<Rightarrow>
          collectDetails client ds detailedDeliveries
            (printErr (WarningDetail (DeliveryDetailFailed (Delivery.ID d) err)) w)
      | (Inr detail, w) \<Rightarrow>
          let detailed = d\<lparr>Delivery.URL := Delivery.URL detail\<rparr>
          in collectDetails client ds (detailedDeliveries @ [detailed]) w)"

definition fetchDeliveryDetails ::
  "(Delivery list \<Rightarrow> Delivery list) \<Rightarrow> Client \<Rightarrow> Delivery list \<Rightarrow> bool \<Rightarrow> World
     \<Rightarrow> Delivery list \<times> World" where
  "fetchDeliveryDetails arrival client deliveries isOrg w =
     (if length deliveries = 0 then (deliveries, w)
      else collectDetails client (arrival deliveries) [] w)"

subsection \<open>The per-repository head limit\<close>

text \<open>
  \<^verbatim>\<open>repoGroups\<close> is a Go map. The order in which \<^verbatim>\<open>range\<close> visits its keys is not
  specified: \<open>rangeOrder\<close> gives it, as a rearrangement of the keys listed by first
  occurrence.
\<close>

fun groupLoop :: "Delivery list \<Rightarrow> (string \<rightharpoonup> Delivery list) \<Rightarrow> (string \<rightharpoonup> Delivery list)" where
  "groupLoop [] repoGroups = repoGroups"
| "groupLoop (d # ds) repoGroups =
     groupLoop ds
       (repoGroups(Repository d \<mapsto>
          (case repoGroups (Repository d) of None \<Rightarrow> [] | Some grp \<Rightarrow> grp) @ [d]))"

fun takeLoop ::
  "(string \<rightharpoonup> Delivery list) \<Rightarrow> int \<Rightarrow> string list \<Rightarrow> Delivery list \<Rightarrow> Delivery list" where
  "takeLoop repoGroups limit [] result = result"
| "takeLoop repoGroups limit (k # ks) result =
     (case repoGroups k of
        None \<Rightarrow> takeLoop repoGroups limit ks result
      | Some grp \<Rightarrow>
          let count = limit;
              count = (if count > int (length grp) then int (length grp) else count)
          in takeLoop repoGroups limit ks (result @ take (nat count) grp))"

definition applyHeadLimit ::
  "(string list \<Rightarrow> string list) \<Rightarrow> Delivery list \<Rightarrow> int \<Rightarrow> string \<Rightarrow> bool \<Rightarrow> Delivery list" where
  "applyHeadLimit rangeOrder deliveries limit sortField ascending =
     (if limit \<le> 0 then deliveries
      else
        let repoGroups = groupLoop deliveries Map.empty;
            result = takeLoop repoGroups limit
                       (rangeOrder (remdups (map Repository deliveries))) []
        in ApplySort result sortField ascending)"

subsection \<open>The command\<close>

text \<open>
  The collaborators of one run: the date parser, the Unicode path of
  \<^verbatim>\<open>strings.ToLower\<close>, the outcome of \<^verbatim>\<open>github.NewClient\<close> (which reads the local
  credentials and sends nothing), the arrival orders of the two pools and the
  iteration order of the map. The rendering of the result (table or JSON) is not
  modelled: \<open>run\<close> returns the deliveries it would print.
\<close>

record Env =
  parseDate :: "string \<Rightarrow> error + Time"
  unicodeLower :: "string \<Rightarrow> string"
  newClient :: "error + Client"
  repoArrival :: "string list \<Rightarrow> string list"
  detailArrival :: "Delivery list \<Rightarrow> Delivery list"
  rangeOrder :: "string list \<Rightarrow> string list"

definition urlFilter ::
  "Env \<Rightarrow> Config \<Rightarrow> Client \<Rightarrow> Delivery list \<Rightarrow> World \<Rightarrow> Delivery list \<times> World" where
  "urlFilter env cfg client filteredDeliveries w =
     (if Filter cfg \<noteq> [] then
        let (detailedDeliveries, w) =
              fetchDeliveryDetails (detailArrival env) client filteredDeliveries (Org cfg \<noteq> []) w
        in (appendMatching (\<lambda>d. MatchesPattern (unicodeLower env) (Delivery.URL d) (Filter cfg))
              detailedDeliveries [], w)
      else (filteredDeliveries, w))"

definition reduce :: "Env \<Rightarrow> Config \<Rightarrow> Delivery list \<Rightarrow> Delivery list" where
  "reduce env cfg filteredDeliveries =
     (let (sortField, ascending) = GetSortConfig cfg;
          filteredDeliveries = ApplySort filteredDeliveries sortField ascending
      in if Head cfg > 0
         then applyHeadLimit (rangeOrder env) filteredDeliveries (Head cfg) sortField ascending
         else filteredDeliveries)"

definition run ::
  "Env \<Rightarrow> Config \<Rightarrow> string \<Rightarrow> string \<Rightarrow> World \<Rightarrow> (error + Delivery list) \<times> World" where
  "run env cfg0 sinceStr untilStr w =
     (case ParseDateRange (parseDate env) sinceStr untilStr of
        Inl err \<Rightarrow> (Inl err, w)
      | Inr (since, until) \<Rightarrow>
          let cfg = cfg0\<lparr>Since := since, Until := until\<rparr>
          in (case Validate cfg of
               Some err \<Rightarrow> (Inl (ValidationError err), w)
             | None \<Rightarrow>
                 (case newClient env of
                    Inl err \<Rightarrow> (Inl (ClientCreation err), w)
                  | Inr client \<Rightarrow>
                      (case (if Org cfg \<noteq> []
                             then processOrganization (unicodeLower env) (repoArrival env)
                                    cfg client (Org cfg) w
                             else processRepository (unicodeLower env) cfg client (Repo cfg) w) of
                         (Inl err, w) \<Rightarrow> (Inl err, w)
                       | (Inr allDeliveries, w) \<Rightarrow>
                           let filteredDeliveries =
                                 dateRangeFilter (Since cfg) (Until cfg) allDeliveries;
                               filteredDeliveries = statusFilter (Failed cfg) filteredDeliveries;
                               (filteredDeliveries, w) =
                                 urlFilter env cfg client filteredDeliveries w
                           in (Inr (reduce env cfg filteredDeliveries), w)))))"

section \<open>Sample records\<close>

text \<open>Concrete deliveries and configurations, used where a theorem is applied to an input.\<close>

definition sampleDelivery :: "int \<Rightarrow> string \<Rightarrow> Time \<Rightarrow> int \<Rightarrow> string \<Rightarrow> Delivery" where
  "sampleDelivery i repo ts code ev =
     \<lparr>Delivery.ID = i, GUID = [], DeliveredAt = ts, Redelivery = False, Duration = 0,
      Status = [], StatusCode = code, Event = ev, Action = [], URL = [],
      Repository = repo, HookID = 1\<rparr>"

definition sampleConfig :: Config where
  "sampleConfig =
     \<lparr>Org = ''acme'', Repo = [], Filter = [], Since = None, Until = None,
      JSONOutput = False, Failed = False, Head = 0, SortBy = []\<rparr>"

section \<open>Properties of the filters\<close>

text \<open>
  C5. With the failed-only filter enabled, a delivery is kept exactly when its status
  code is 0 or at least 400, and the filtered result is the sublist of the input
  deliveries that satisfy this, in input order.
\<close>

theorem failed_only_filter:
  "(IsFailed statusCode \<longleftrightarrow> statusCode = 0 \<or> 400 \<le> statusCode) \<and>
   statusFilter True deliveries =
     filter (\<lambda>d. StatusCode d = 0 \<or> 400 \<le> StatusCode d) deliveries"
  by (simp add: IsFailed_def statusFilter_def appendMatching_filter)

text \<open>
  C7. The time-range test keeps a timestamp exactly when it is not before the lower
  bound and not after the upper bound, an absent bound being unbounded: with both
  absent everything is kept, and a timestamp equal to a bound is kept. The date
  filter of \<^verbatim>\<open>run\<close> is the sublist of the deliveries that pass the test.
\<close>

theorem time_range_inclusive:
  "(InRange t since until \<longleftrightarrow>
      (case since of None \<Rightarrow> True | Some lower \<Rightarrow> lower \<le> t) \<and>
      (case until of None \<Rightarrow> True | Some upper \<Rightarrow> t \<le> upper)) \<and>
   InRange t None None \<and>
   InRange t (Some t) until = (case until of None \<Rightarrow> True | Some upper \<Rightarrow> t \<le> upper) \<and>
   InRange t since (Some t) = (case since of None \<Rightarrow> True | Some lower \<Rightarrow> lower \<le> t) \<and>
   dateRangeFilter since until deliveries =
     filter (\<lambda>d. InRange (DeliveredAt d) since until) deliveries"
  by (auto simp: InRange_def Before_def After_def dateRangeFilter_def appendMatching_filter
      split: option.splits)

section \<open>Properties of the sort configuration\<close>

lemma Split_no_sep: "sep \<notin> set s \<Longrightarrow> Split s sep = [s]"
  by (induction s) auto

lemma GetSortConfig_no_order:
  assumes "CHR '':'' \<notin> set s" "s \<noteq> []"
  shows "GetSortConfig (c\<lparr>SortBy := s\<rparr>) =
     (if s = ''repository'' \<or> s = ''event'' then (s, True)
      else if s = ''timestamp'' \<or> s = ''code'' then (s, False)
      else (''timestamp'', False))"
  using assms by (simp add: GetSortConfig_def Split_no_sep Let_def)

text \<open>
  C6. A sort field given without a direction gets its default: repository and event
  ascending, timestamp and code descending. With no sort field configured the
  configuration is timestamp descending, as it is for a field without a direction
  that is not one of the four; and \<^verbatim>\<open>ApplySort\<close>, given a field that is not one of
  the four, sorts by timestamp descending whatever direction it is passed.
\<close>

theorem default_sort_directions:
  "GetSortConfig (c\<lparr>SortBy := ''repository''\<rparr>) = (''repository'', True) \<and>
   GetSortConfig (c\<lparr>SortBy := ''event''\<rparr>) = (''event'', True) \<and>
   GetSortConfig (c\<lparr>SortBy := ''timestamp''\<rparr>) = (''timestamp'', False) \<and>
   GetSortConfig (c\<lparr>SortBy := ''code''\<rparr>) = (''code'', False) \<and>
   GetSortConfig (c\<lparr>SortBy := []\<rparr>) = (''timestamp'', False) \<and>
   (CHR '':'' \<notin> set s \<and> s \<notin> set validFields \<longrightarrow>
      GetSortConfig (c\<lparr>SortBy := s\<rparr>) = (''timestamp'', False)) \<and>
   (sortBy \<notin> set validFields \<longrightarrow>
      ApplySort deliveries sortBy ascending = SortDeliveriesByTime deliveries False)"
proof -
  have a: "GetSortConfig (c\<lparr>SortBy := ''repository''\<rparr>) = (''repository'', True)"
    by (simp add: GetSortConfig_def)
  have b: "GetSortConfig (c\<lparr>SortBy := ''event''\<rparr>) = (''event'', True)"
    by (simp add: GetSortConfig_def)
  have c: "GetSortConfig (c\<lparr>SortBy := ''timestamp''\<rparr>) = (''timestamp'', False)"
    by (simp add: GetSortConfig_def)
  have d: "GetSortConfig (c\<lparr>SortBy := ''code''\<rparr>) = (''code'', False)"
    by (simp add: GetSortConfig_def)
  have e: "GetSortConfig (c\<lparr>SortBy := []\<rparr>) = (''timestamp'', False)"
    by (simp add: GetSortConfig_def)
  have f: "CHR '':'' \<notin> set s \<and> s \<notin> set validFields \<longrightarrow>
      GetSortConfig (c\<lparr>SortBy := s\<rparr>) = (''timestamp'', False)"
  proof (cases "s = []")
    case True
    then show ?thesis by (simp add: GetSortConfig_def)
  next
    case False
    then show ?thesis
      using GetSortConfig_no_order[of s c] by (auto simp: validFields_def)
  qed
  have g: "sortBy \<notin> set validFields \<longrightarrow>
      ApplySort deliveries sortBy ascending = SortDeliveriesByTime deliveries False"
    by (simp add: ApplySort_def validFields_def)
  from a b c d e f g show ?thesis by blast
qed

theorem default_sort_directions_witness:
  "GetSortConfig (sampleConfig\<lparr>SortBy := ''status''\<rparr>) = (''timestamp'', False) \<and>
   ApplySort [sampleDelivery 1 ''acme/api'' 10 200 ''push'',
              sampleDelivery 2 ''acme/api'' 20 500 ''push''] ''status'' True =
   SortDeliveriesByTime [sampleDelivery 1 ''acme/api'' 10 200 ''push'',
              sampleDelivery 2 ''acme/api'' 20 500 ''push''] False"
  using default_sort_directions[of sampleConfig "''status''" "''status''"
      "[sampleDelivery 1 ''acme/api'' 10 200 ''push'',
        sampleDelivery 2 ''acme/api'' 20 500 ''push'']" True]
  by (simp add: validFields_def)

end
